theory Spec2Isabelle
  imports Main "HOL-Library.AList" "HOL-Library.Sublist"
begin

section \<open>Strings and the key sanitiser\<close>

text \<open>
  A Python \<open>str\<close> is modelled as a HOL \<open>string\<close>. A \<open>char\<close> stands for one code
  point in the range U+0000 to U+00FF, so \<open>length\<close> and \<open>take\<close> count what Python's
  \<open>len\<close> and slicing count. Code points above U+00FF are outside the model.
\<close>

definition GRAPH_API :: string where
  "GRAPH_API = ''https://graph.microsoft.com/beta''"

text \<open>\<open>s.replace(old, new)\<close> for a one-character \<open>old\<close> and a one-character \<open>new\<close>.\<close>

definition str_replace :: "char \<Rightarrow> char \<Rightarrow> string \<Rightarrow> string" where
  "str_replace old new s = map (\<lambda>c. if c = old then new else c) s"

text \<open>
  \<open>str.lower\<close> on the code points below 256: the letters A to Z, U+00C0 to U+00D6 and
  U+00D8 to U+00DE move up by 32; every other code point of the range is left as it is.
\<close>

definition lower_char :: "char \<Rightarrow> char" where
  "lower_char c =
     (let n = (of_char c :: nat)
      in if (65 \<le> n \<and> n \<le> 90) \<or> (192 \<le> n \<and> n \<le> 214) \<or> (216 \<le> n \<and> n \<le> 222)
         then char_of (n + 32) else c)"

definition str_lower :: "string \<Rightarrow> string" where
  "str_lower s = map lower_char s"

text \<open>\<open>def safe(name): return name.replace(" ", "_").replace("-", "_").lower()\<close>\<close>

definition safe :: "string \<Rightarrow> string" where
  "safe name = str_lower (str_replace (CHR ''-'') (CHR ''_'') (str_replace (CHR '' '') (CHR ''_'') name))"

text \<open>\<open>sub in s\<close> for two strings.\<close>

fun str_contains :: "string \<Rightarrow> string \<Rightarrow> bool" where
  "str_contains sub [] = (sub = [])"
| "str_contains sub (c # cs) = (prefix sub (c # cs) \<or> str_contains sub cs)"

section \<open>Errors and the paginated fetcher\<close>

text \<open>
  The exceptions that can leave \<open>main\<close>: a subscript on a key the dictionary lacks, a
  failed request (or a body that is not JSON), and a checked subprocess that exits with a
  status other than 0.
\<close>

datatype py_error = KeyError string | RequestException | CalledProcessError int

text \<open>
  The parsed body of a paginated response, as far as \<open>get_all\<close> reads it:
  \<open>page_value\<close> is the entry \<open>"value"\<close> and \<open>page_nextLink\<close> the entry
  \<open>"@odata.nextLink"\<close>, each \<open>None\<close> when the body has no such key.
\<close>

record 'a page =
  page_value :: "'a list option"
  page_nextLink :: "string option"

text \<open>\<open>res.get("value", [])\<close>\<close>

definition page_items :: "'a page \<Rightarrow> 'a list" where
  "page_items res = (case page_value res of None \<Rightarrow> [] | Some v \<Rightarrow> v)"

text \<open>
  \<^verbatim>\<open>
  def get_all(url, headers):
      items = []
      while url:
          res = requests.get(url, headers=headers).json()
          items += res.get("value", [])
          url = res.get("@odata.nextLink")
      return items
  \<close>
  The parameter \<open>requests_get\<close> stands for \<open>requests.get(url, headers=headers).json()\<close>
  with the headers of the run: a request is answered as a function of its URL. The loop variable \<open>url\<close> is \<open>None\<close> or a string, and is
  falsy when it is \<open>None\<close> or empty. The loop may follow links for ever: the result
  \<open>None\<close> is the run that never returns.
\<close>

partial_function (option) get_all_loop ::
  "(string \<Rightarrow> py_error + 'a page) \<Rightarrow> string option \<Rightarrow> 'a list \<Rightarrow> (py_error + 'a list) option" where
  "get_all_loop requests_get url items =
     (case url of
        None \<Rightarrow> Some (Inr items)
      | Some u \<Rightarrow>
          if u = [] then Some (Inr items)
          else (case requests_get u of
                  Inl e \<Rightarrow> Some (Inl e)
                | Inr res \<Rightarrow>
                    get_all_loop requests_get (page_nextLink res) (items @ page_items res)))"

declare get_all_loop.simps [code]

definition get_all :: "(string \<Rightarrow> py_error + 'a page) \<Rightarrow> string \<Rightarrow> (py_error + 'a list) option" where
  "get_all requests_get url = get_all_loop requests_get (Some url) []"

text \<open>
  The responses met from \<open>url\<close> on are exactly \<open>pages\<close>: every response but the last
  carries a continuation link, which is the next URL requested, and the last carries none.
\<close>

fun serves :: "(string \<Rightarrow> py_error + 'a page) \<Rightarrow> string \<Rightarrow> 'a page list \<Rightarrow> bool" where
  "serves requests_get url [] = False"
| "serves requests_get url (p # ps) =
     (url \<noteq> [] \<and> requests_get url = Inr p \<and>
      (if ps = [] then page_nextLink p = None
       else (case page_nextLink p of None \<Rightarrow> False | Some u \<Rightarrow> serves requests_get u ps)))"

text \<open>An error response: a body with neither an item list nor a continuation link.\<close>

definition is_error_response :: "'a page \<Rightarrow> bool" where
  "is_error_response res = (page_value res = None \<and> page_nextLink res = None)"

text \<open>
  \<^verbatim>\<open>
  def get_display_name(headers, object_id):
      url = f"{GRAPH_API}/directoryObjects/{object_id}"
      res = requests.get(url, headers=headers).json()
      return res.get("displayName", "UnknownGroup")
  \<close>
  The body of a directory object is modelled by its entry \<open>"displayName"\<close>.
\<close>

record directory_object =
  obj_displayName :: "string option"

definition get_display_name :: "(string \<Rightarrow> py_error + directory_object) \<Rightarrow> string \<Rightarrow> py_error + string" where
  "get_display_name requests_get object_id =
     (case requests_get (GRAPH_API @ ''/directoryObjects/'' @ object_id) of
        Inl e \<Rightarrow> Inl e
      | Inr res \<Rightarrow> Inr (case obj_displayName res of None \<Rightarrow> ''UnknownGroup'' | Some n \<Rightarrow> n))"

section \<open>The data of a run\<close>

text \<open>
  The items of the three paginated collections, as far as \<open>main\<close> reads them. A field
  is \<open>None\<close> when the item has no such key: a subscript \<open>item["k"]\<close> then raises
  \<open>KeyError\<close>, and \<open>item.get("k", d)\<close> gives \<open>d\<close>. A value that is there has the
  type the Graph schema gives it (identifiers, names and descriptions are strings); a
  JSON \<open>null\<close> and a value of another type are outside the model.
\<close>

record package =
  pkg_id :: "string option"
  pkg_displayName :: "string option"
  pkg_catalogId :: "string option"
  pkg_description :: "string option"

record approver =
  approver_id :: "string option"

record stage =
  primaryApprovers :: "approver list option"
  escalationApprovers :: "approver list option"

record approval_settings =
  isApprovalRequired :: "bool option"
  approvalStages :: "stage list option"

record policy =
  pol_id :: "string option"
  pol_displayName :: "string option"
  durationInDays :: "int option"
  requestApprovalSettings :: "approval_settings option"

record assignment_item =
  asg_id :: "string option"
  asg_targetId :: "string option"

text \<open>
  The values of the three output mappings. An assignment policy and an assignment both
  start with the key of their access package.
\<close>

record access_package =
  catalog_id :: string
  description :: string

record keyed =
  access_package_key :: string

record assignment_policy = keyed +
  duration_in_days :: int
  request_approval :: bool
  approvers_primary :: "string option list"
  approvers_secondary :: "string option list"

record assignment = keyed +
  target_id :: string

text \<open>
  A Python \<open>dict\<close> is an association list in insertion order: \<open>d[k] = v\<close> is
  \<open>AList.update k v d\<close>, which replaces the value of a key that is there, in place, and
  appends a new key at the end. \<open>map_of d k\<close> looks a key up.

  The local variables of \<open>main\<close> that the loop over the packages fills.
\<close>

record acc =
  access_packages :: "(string \<times> access_package) list"
  assignment_policies :: "(string \<times> assignment_policy) list"
  assignments :: "(string \<times> assignment) list"
  grouped_assignments :: "(string \<times> (string \<times> assignment) list) list"
  import_cmds :: "string list"

definition acc_init :: acc where
  "acc_init = \<lparr>access_packages = [], assignment_policies = [], assignments = [],
     grouped_assignments = [], import_cmds = []\<rparr>"

text \<open>The command-line options of \<open>main\<close>.\<close>

record args =
  client_id :: string
  client_secret :: string
  tenant_id :: string
  catalog_id_opt :: string
  out_dir :: string
  grouped_tfvars :: bool
  generate_main :: bool
  run_imports :: bool

text \<open>
  What the run takes from outside the program: the token dictionary of the identity
  library (its entry \<open>"access_token"\<close>, \<open>None\<close> when it has none), the parsed bodies
  of the GET requests by URL, one function for each shape of body, \<open>json.dump\<close> with
  \<open>indent=2\<close> on each of the three mappings, and the exit status of a subprocess by its
  command line.
\<close>

record world =
  acquire_token_for_client :: "string \<Rightarrow> string \<Rightarrow> string \<Rightarrow> string option"
  get_packages :: "string \<Rightarrow> py_error + package page"
  get_policies :: "string \<Rightarrow> py_error + policy page"
  get_assignments :: "string \<Rightarrow> py_error + assignment_item page"
  get_directory_object :: "string \<Rightarrow> py_error + directory_object"
  dump_access_packages :: "(string \<times> access_package) list \<Rightarrow> string"
  dump_assignment_policies :: "(string \<times> assignment_policy) list \<Rightarrow> string"
  dump_assignments :: "(string \<times> assignment) list \<Rightarrow> string"
  subprocess_run :: "string list \<Rightarrow> int"

text \<open>
  The lines \<open>main\<close> prints, in the order of the source: "Fetching access packages...",
  "terraform.tfvars written", "<group>.tfvars written", "terraform_import.sh written",
  "main.tf scaffold created", "variables.tf scaffold created", "Detected Terraform
  backend config. Running terraform init..." and "terraform import executed".
\<close>

datatype msg =
    Fetching_access_packages
  | Tfvars_written
  | Group_tfvars_written string
  | Import_script_written
  | Main_tf_created
  | Variables_tf_created
  | Detected_backend
  | Import_executed

text \<open>
  What a run leaves: the files of the output directory (the working directory after
  \<open>os.makedirs\<close> and \<open>os.chdir\<close>) by name, the lines printed, and the exception that
  ended the run, if one did. A file opened for writing is created or truncated; a write
  to one name leaves every other name as it was.
\<close>

record outcome =
  files :: "string \<rightharpoonup> string"
  stdout :: "msg list"
  raised :: "py_error option"

definition write_file :: "string \<Rightarrow> string \<Rightarrow> outcome \<Rightarrow> outcome" where
  "write_file name content out = out\<lparr>files := (files out)(name \<mapsto> content)\<rparr>"

definition print :: "msg \<Rightarrow> outcome \<Rightarrow> outcome" where
  "print m out = out\<lparr>stdout := stdout out @ [m]\<rparr>"

definition path_exists :: "outcome \<Rightarrow> string \<Rightarrow> bool" where
  "path_exists out name = (files out name \<noteq> None)"

section \<open>The pipeline\<close>

text \<open>
  \<^verbatim>\<open>
  def get_token(client_id, client_secret, tenant_id):
      app = ConfidentialClientApplication(...)
      token = app.acquire_token_for_client(scopes=[...])
      return token['access_token']
  \<close>
\<close>

definition get_token :: "world \<Rightarrow> string \<Rightarrow> string \<Rightarrow> string \<Rightarrow> py_error + string" where
  "get_token w cid secret tid =
     (case acquire_token_for_client w cid secret tid of
        None \<Rightarrow> Inl (KeyError ''access_token'')
      | Some t \<Rightarrow> Inr t)"

definition packages_url :: "string \<Rightarrow> string" where
  "packages_url cat =
     GRAPH_API @ ''/identityGovernance/entitlementManagement/accessPackages?$filter=catalogId eq ''
       @ [CHR 0x27] @ cat @ [CHR 0x27]"

definition policies_url :: "string \<Rightarrow> string" where
  "policies_url pid =
     GRAPH_API @ ''/identityGovernance/entitlementManagement/accessPackages/'' @ pid
       @ ''/assignmentPolicies''"

definition assignments_url :: "string \<Rightarrow> string" where
  "assignments_url pid =
     GRAPH_API @ ''/identityGovernance/entitlementManagement/accessPackageAssignments?$filter=accessPackageId eq ''
       @ [CHR 0x27] @ pid @ [CHR 0x27]"

text \<open>
  \<open>[a.get("id") for stage in pol.get("requestApprovalSettings", {}).get("approvalStages", [])
      for a in stage.get(field, [])]\<close>
\<close>

definition approval_stages :: "policy \<Rightarrow> stage list" where
  "approval_stages pol =
     (case requestApprovalSettings pol of
        None \<Rightarrow> []
      | Some s \<Rightarrow> (case approvalStages s of None \<Rightarrow> [] | Some sts \<Rightarrow> sts))"

definition approver_ids :: "(stage \<Rightarrow> approver list option) \<Rightarrow> policy \<Rightarrow> string option list" where
  "approver_ids field pol =
     concat (map (\<lambda>st. map approver_id (case field st of None \<Rightarrow> [] | Some as \<Rightarrow> as))
       (approval_stages pol))"

definition policy_entry :: "string \<Rightarrow> policy \<Rightarrow> assignment_policy" where
  "policy_entry name pol =
     \<lparr>access_package_key = name,
      duration_in_days = (case durationInDays pol of None \<Rightarrow> 30 | Some d \<Rightarrow> d),
      request_approval =
        (case requestApprovalSettings pol of
           None \<Rightarrow> False
         | Some s \<Rightarrow> (case isApprovalRequired s of None \<Rightarrow> False | Some b \<Rightarrow> b)),
      approvers_primary = approver_ids primaryApprovers pol,
      approvers_secondary = approver_ids escalationApprovers pol\<rparr>"

text \<open>The loop \<open>for pol in pols\<close> of one package, whose key is \<open>name\<close>.\<close>

fun main_policies :: "string \<Rightarrow> policy list \<Rightarrow> acc \<Rightarrow> py_error + acc" where
  "main_policies name [] st = Inr st"
| "main_policies name (pol # pols) st =
     (case pol_displayName pol of
        None \<Rightarrow> Inl (KeyError ''displayName'')
      | Some dn \<Rightarrow>
          let pol_key = name @ ''_'' @ safe dn;
              st1 = st\<lparr>assignment_policies :=
                      AList.update pol_key (policy_entry name pol) (assignment_policies st)\<rparr>
          in (case pol_id pol of
                None \<Rightarrow> Inl (KeyError ''id'')
              | Some i \<Rightarrow>
                  main_policies name pols
                    (st1\<lparr>import_cmds := import_cmds st1 @
                       [''terraform import azuread_access_package_assignment_policy.''
                          @ pol_key @ '' '' @ i]\<rparr>)))"

text \<open>
  \<open>grouped_assignments.setdefault(group, {})[assign_key] = assignment\<close>: the mapping of
  the group, empty when the group is new, takes the entry and stays at the group's place.
\<close>

definition group_add ::
  "string \<Rightarrow> string \<Rightarrow> assignment \<Rightarrow> (string \<times> (string \<times> assignment) list) list
     \<Rightarrow> (string \<times> (string \<times> assignment) list) list" where
  "group_add grp assign_key a groups =
     AList.update grp
       (AList.update assign_key a (case map_of groups grp of None \<Rightarrow> [] | Some d \<Rightarrow> d))
       groups"

text \<open>The loop \<open>for a in assigns\<close> of one package, whose key is \<open>name\<close>.\<close>

fun main_assignments :: "world \<Rightarrow> args \<Rightarrow> string \<Rightarrow> assignment_item list \<Rightarrow> acc \<Rightarrow> py_error + acc" where
  "main_assignments w a name [] st = Inr st"
| "main_assignments w a name (x # xs) st =
     (case asg_targetId x of
        None \<Rightarrow> Inl (KeyError ''targetId'')
      | Some tid \<Rightarrow>
          (case get_display_name (get_directory_object w) tid of
             Inl e \<Rightarrow> Inl e
           | Inr dn \<Rightarrow>
               let grp = safe dn;
                   assign_key = name @ ''_user_'' @ take 6 tid;
                   assignment = \<lparr>access_package_key = name, target_id = tid\<rparr>;
                   st1 = st\<lparr>assignments := AList.update assign_key assignment (assignments st)\<rparr>
               in (case asg_id x of
                     None \<Rightarrow> Inl (KeyError ''id'')
                   | Some i \<Rightarrow>
                       let st2 = st1\<lparr>import_cmds := import_cmds st1 @
                                   [''terraform import azuread_access_package_assignment.''
                                      @ assign_key @ '' '' @ i]\<rparr>;
                           st3 = (if grouped_tfvars a
                                  then st2\<lparr>grouped_assignments :=
                                         group_add grp assign_key assignment (grouped_assignments st2)\<rparr>
                                  else st2)
                       in main_assignments w a name xs st3)))"

text \<open>
  The loop \<open>for pkg in packages\<close>. A fetch of the policies or of the assignments that
  never returns makes the loop never return.
\<close>

fun main_packages :: "world \<Rightarrow> args \<Rightarrow> package list \<Rightarrow> acc \<Rightarrow> (py_error + acc) option" where
  "main_packages w a [] st = Some (Inr st)"
| "main_packages w a (pkg # pkgs) st =
     (case pkg_displayName pkg of
        None \<Rightarrow> Some (Inl (KeyError ''displayName''))
      | Some dn \<Rightarrow>
          let name = safe dn
          in (case pkg_catalogId pkg of
                None \<Rightarrow> Some (Inl (KeyError ''catalogId''))
              | Some cat \<Rightarrow>
                  let st1 = st\<lparr>access_packages :=
                              AList.update name
                                \<lparr>catalog_id = cat,
                                 description = (case pkg_description pkg of None \<Rightarrow> [] | Some d \<Rightarrow> d)\<rparr>
                                (access_packages st)\<rparr>
                  in (case pkg_id pkg of
                        None \<Rightarrow> Some (Inl (KeyError ''id''))
                      | Some i \<Rightarrow>
                          let st2 = st1\<lparr>import_cmds := import_cmds st1 @
                                      [''terraform import azuread_access_package.'' @ name @ '' '' @ i]\<rparr>
                          in (case get_all (get_policies w) (policies_url i) of
                                None \<Rightarrow> None
                              | Some (Inl e) \<Rightarrow> Some (Inl e)
                              | Some (Inr pols) \<Rightarrow>
                                  (case main_policies name pols st2 of
                                     Inl e \<Rightarrow> Some (Inl e)
                                   | Inr st3 \<Rightarrow>
                                       (case get_all (get_assignments w) (assignments_url i) of
                                          None \<Rightarrow> None
                                        | Some (Inl e) \<Rightarrow> Some (Inl e)
                                        | Some (Inr assigns) \<Rightarrow>
                                            (case main_assignments w a name assigns st3 of
                                               Inl e \<Rightarrow> Some (Inl e)
                                             | Inr st4 \<Rightarrow> main_packages w a pkgs st4)))))))"

text \<open>The fetch of the packages of the catalog, and the loop over them.\<close>

definition main_collect :: "world \<Rightarrow> args \<Rightarrow> (py_error + acc) option" where
  "main_collect w a =
     (case get_all (get_packages w) (packages_url (catalog_id_opt a)) of
        None \<Rightarrow> None
      | Some (Inl e) \<Rightarrow> Some (Inl e)
      | Some (Inr packages) \<Rightarrow> main_packages w a packages acc_init)"

text \<open>The file \<open>terraform.tfvars\<close>.\<close>

definition main_write_tfvars :: "world \<Rightarrow> acc \<Rightarrow> outcome \<Rightarrow> outcome" where
  "main_write_tfvars w st out =
     print Tfvars_written
       (write_file ''terraform.tfvars''
          (''access_packages = '' @ dump_access_packages w (access_packages st) @ ''\<newline>\<newline>''
           @ ''assignment_policies = '' @ dump_assignment_policies w (assignment_policies st) @ ''\<newline>\<newline>''
           @ ''assignments = '' @ dump_assignments w (assignments st))
          out)"

text \<open>One file for each group, in the order of the groups, when the option is set.\<close>

definition write_group :: "world \<Rightarrow> string \<times> (string \<times> assignment) list \<Rightarrow> outcome \<Rightarrow> outcome" where
  "write_group w ga out =
     print (Group_tfvars_written (fst ga))
       (write_file (fst ga @ ''.tfvars'') (''assignments = '' @ dump_assignments w (snd ga)) out)"

definition main_write_groups :: "world \<Rightarrow> args \<Rightarrow> acc \<Rightarrow> outcome \<Rightarrow> outcome" where
  "main_write_groups w a st out =
     (if grouped_tfvars a then fold (write_group w) (grouped_assignments st) out else out)"

text \<open>The file \<open>terraform_import.sh\<close>.\<close>

definition main_write_import_script :: "acc \<Rightarrow> outcome \<Rightarrow> outcome" where
  "main_write_import_script st out =
     print Import_script_written
       (write_file ''terraform_import.sh''
          (''#!/bin/bash\<newline>\<newline>'' @ concat (map (\<lambda>cmd. cmd @ ''\<newline>'') (import_cmds st)))
          out)"

text \<open>The text written to \<open>main.tf\<close>, line by line.\<close>

definition main_tf_text :: string where
  \<open>main_tf_text = concat
    [''resource "azuread_access_package" "packages" {\<newline>'',
     ''  for_each     = var.access_packages\<newline>'',
     ''  display_name = each.key\<newline>'',
     ''  catalog_id   = each.value.catalog_id\<newline>'',
     ''  description  = each.value.description\<newline>'',
     ''}\<newline>'',
     ''\<newline>'',
     ''resource "azuread_access_package_assignment_policy" "policies" {\<newline>'',
     ''  for_each             = var.assignment_policies\<newline>'',
     ''  display_name         = each.key\<newline>'',
     ''  access_package_id    = azuread_access_package.packages[each.value.access_package_key].id\<newline>'',
     ''  duration_in_days     = each.value.duration_in_days\<newline>'',
     ''  request_approval     = each.value.request_approval\<newline>'',
     ''\<newline>'',
     ''  approval_settings {\<newline>'',
     ''    approval_mode  = "Serial"\<newline>'',
     ''    stages = [\<newline>'',
     ''      {\<newline>'',
     ''        primary_approvers    = each.value.approvers_primary\<newline>'',
     ''        escalation_approvers = each.value.approvers_secondary\<newline>'',
     ''        duration_in_days     = 7\<newline>'',
     ''      }\<newline>'',
     ''    ]\<newline>'',
     ''  }\<newline>'',
     ''\<newline>'',
     ''  requestor_settings {\<newline>'',
     ''    scope_type = "AllExistingConnectedOrganizationSubjects"\<newline>'',
     ''  }\<newline>'',
     ''}\<newline>'',
     ''\<newline>'',
     ''resource "azuread_access_package_assignment" "assignments" {\<newline>'',
     ''  for_each          = var.assignments\<newline>'',
     ''  access_package_id = azuread_access_package.packages[each.value.access_package_key].id\<newline>'',
     ''  target_id         = each.value.target_id\<newline>'',
     ''}\<newline>'']\<close>

text \<open>The text written to \<open>variables.tf\<close>, line by line.\<close>

definition variables_tf_text :: string where
  \<open>variables_tf_text = concat
    [''variable "access_packages" {\<newline>'',
     ''  type = map(object({\<newline>'',
     ''    catalog_id   = string\<newline>'',
     ''    description  = string\<newline>'',
     ''  }))\<newline>'',
     ''}\<newline>'',
     ''\<newline>'',
     ''variable "assignment_policies" {\<newline>'',
     ''  type = map(object({\<newline>'',
     ''    access_package_key  = string\<newline>'',
     ''    duration_in_days    = number\<newline>'',
     ''    request_approval    = bool\<newline>'',
     ''    approvers_primary   = list(string)\<newline>'',
     ''    approvers_secondary = list(string)\<newline>'',
     ''  }))\<newline>'',
     ''}\<newline>'',
     ''\<newline>'',
     ''variable "assignments" {\<newline>'',
     ''  type = map(object({\<newline>'',
     ''    access_package_key = string\<newline>'',
     ''    target_id          = string\<newline>'',
     ''  }))\<newline>'',
     ''}\<newline>'']\<close>

text \<open>The two scaffold files, each written when the option is set and no file of its name exists.\<close>

definition main_scaffold :: "args \<Rightarrow> outcome \<Rightarrow> outcome" where
  "main_scaffold a out =
     (let out1 = (if generate_main a \<and> \<not> path_exists out ''main.tf''
                  then print Main_tf_created (write_file ''main.tf'' main_tf_text out)
                  else out)
      in if generate_main a \<and> \<not> path_exists out1 ''variables.tf''
         then print Variables_tf_created (write_file ''variables.tf'' variables_tf_text out1)
         else out1)"

text \<open>
  \<^verbatim>\<open>
  if run_imports:
      if Path("backend.tf").exists() or (Path("main.tf").exists() and "backend" in Path("main.tf").read_text()):
          print("Detected Terraform backend config. Running terraform init...")
          subprocess.run(["terraform", "init"], check=True)
      subprocess.run(["bash", "terraform_import.sh"])
      print("terraform import executed")
  \<close>
  A subprocess acts on the run through its exit status only.
\<close>

definition backend_detected :: "outcome \<Rightarrow> bool" where
  "backend_detected out =
     (path_exists out ''backend.tf'' \<or>
      (case files out ''main.tf'' of None \<Rightarrow> False | Some text \<Rightarrow> str_contains ''backend'' text))"

definition import_script_status :: "world \<Rightarrow> int" where
  "import_script_status w = subprocess_run w [''bash'', ''terraform_import.sh'']"

definition main_run_imports :: "world \<Rightarrow> args \<Rightarrow> outcome \<Rightarrow> outcome" where
  "main_run_imports w a out =
     (if run_imports a then
        (let out1 = (if backend_detected out then print Detected_backend out else out);
             init = (if backend_detected out then subprocess_run w [''terraform'', ''init''] else 0)
         in if init \<noteq> 0 then out1\<lparr>raised := Some (CalledProcessError init)\<rparr>
            else (let status = import_script_status w
                  in print Import_executed out1))
      else out)"

text \<open>The writes, once the mappings are filled: the files the run leaves before the import.\<close>

definition main_files :: "world \<Rightarrow> args \<Rightarrow> acc \<Rightarrow> outcome \<Rightarrow> outcome" where
  "main_files w a st out =
     main_scaffold a
       (main_write_import_script st
          (main_write_groups w a st
             (main_write_tfvars w st out)))"

definition main_emit :: "world \<Rightarrow> args \<Rightarrow> acc \<Rightarrow> outcome \<Rightarrow> outcome" where
  "main_emit w a st out = main_run_imports w a (main_files w a st out)"

text \<open>
  \<open>main\<close> on the files \<open>fs\<close> of the output directory. \<open>None\<close> is the run that never
  returns; an exception ends the run with the files and the lines it had reached.
\<close>

definition main :: "world \<Rightarrow> args \<Rightarrow> (string \<rightharpoonup> string) \<Rightarrow> outcome option" where
  "main w a fs =
     (case get_token w (client_id a) (client_secret a) (tenant_id a) of
        Inl e \<Rightarrow> Some \<lparr>files = fs, stdout = [], raised = Some e\<rparr>
      | Inr access_token \<Rightarrow>
          let out1 = print Fetching_access_packages \<lparr>files = fs, stdout = [], raised = None\<rparr>
          in (case main_collect w a of
                None \<Rightarrow> None
              | Some (Inl e) \<Rightarrow> Some (out1\<lparr>raised := Some e\<rparr>)
              | Some (Inr st) \<Rightarrow> Some (main_emit w a st out1)))"

section \<open>Vocabulary for the properties\<close>

text \<open>
  An item the loops read without raising: a policy that has the keys the loop
  subscripts, an assignment that has them and whose target the directory answers for, a
  package that has them and whose two fetches return such items.
\<close>

definition policy_ok :: "policy \<Rightarrow> bool" where
  "policy_ok pol = (pol_displayName pol \<noteq> None \<and> pol_id pol \<noteq> None)"

definition assignment_ok :: "world \<Rightarrow> assignment_item \<Rightarrow> bool" where
  "assignment_ok w x =
     (asg_id x \<noteq> None \<and>
      (case asg_targetId x of
         None \<Rightarrow> False
       | Some tid \<Rightarrow>
           (case get_display_name (get_directory_object w) tid of Inl e \<Rightarrow> False | Inr dn \<Rightarrow> True)))"

definition package_ok :: "world \<Rightarrow> package \<Rightarrow> bool" where
  "package_ok w pkg =
     (pkg_displayName pkg \<noteq> None \<and> pkg_catalogId pkg \<noteq> None \<and>
      (case pkg_id pkg of
         None \<Rightarrow> False
       | Some i \<Rightarrow>
           (case get_all (get_policies w) (policies_url i) of
              Some (Inr pols) \<Rightarrow> list_all policy_ok pols
            | _ \<Rightarrow> False) \<and>
           (case get_all (get_assignments w) (assignments_url i) of
              Some (Inr xs) \<Rightarrow> list_all (assignment_ok w) xs
            | _ \<Rightarrow> False)))"

text \<open>The entry a package puts into \<open>access_packages\<close>, under its key.\<close>

definition package_entry :: "package \<Rightarrow> (string \<times> access_package) list" where
  "package_entry pkg =
     (case pkg_displayName pkg of
        None \<Rightarrow> []
      | Some dn \<Rightarrow>
          (case pkg_catalogId pkg of
             None \<Rightarrow> []
           | Some cat \<Rightarrow>
               [(safe dn,
                 \<lparr>catalog_id = cat,
                  description = (case pkg_description pkg of None \<Rightarrow> [] | Some d \<Rightarrow> d)\<rparr>)]))"

text \<open>
  The assignments met by a run, in the order they are processed: for each, the group its
  target resolves to, its key, and its entry.
\<close>

definition assignment_row :: "world \<Rightarrow> string \<Rightarrow> assignment_item \<Rightarrow> (string \<times> string \<times> assignment) list" where
  "assignment_row w name x =
     (case asg_targetId x of
        None \<Rightarrow> []
      | Some tid \<Rightarrow>
          (case get_display_name (get_directory_object w) tid of
             Inl e \<Rightarrow> []
           | Inr dn \<Rightarrow>
               [(safe dn, name @ ''_user_'' @ take 6 tid,
                 \<lparr>access_package_key = name, target_id = tid\<rparr>)]))"

definition assignment_rows :: "world \<Rightarrow> string \<Rightarrow> assignment_item list \<Rightarrow> (string \<times> string \<times> assignment) list" where
  "assignment_rows w name xs = concat (map (assignment_row w name) xs)"

definition package_rows :: "world \<Rightarrow> package \<Rightarrow> (string \<times> string \<times> assignment) list" where
  "package_rows w pkg =
     (case pkg_displayName pkg of
        None \<Rightarrow> []
      | Some dn \<Rightarrow>
          (case pkg_id pkg of
             None \<Rightarrow> []
           | Some i \<Rightarrow>
               (case get_all (get_assignments w) (assignments_url i) of
                  Some (Inr xs) \<Rightarrow> assignment_rows w (safe dn) xs
                | _ \<Rightarrow> [])))"

definition all_rows :: "world \<Rightarrow> package list \<Rightarrow> (string \<times> string \<times> assignment) list" where
  "all_rows w pkgs = concat (map (package_rows w) pkgs)"


text \<open>
  Referential integrity: every assignment policy and every assignment names, as its
  \<open>access_package_key\<close>, a key of \<open>access_packages\<close>.
\<close>

definition refs_ok :: "acc \<Rightarrow> bool" where
  "refs_ok st =
     (list_all (\<lambda>kv. access_package_key (snd kv) \<in> set (map fst (access_packages st)))
        (assignment_policies st) \<and>
      list_all (\<lambda>kv. access_package_key (snd kv) \<in> set (map fst (access_packages st)))
        (assignments st))"



section \<open>Example runs\<close>

text \<open>Two pages of numbers, and a fetch whose second response is an error response.\<close>

definition two_pages :: "string \<Rightarrow> py_error + nat page" where
  "two_pages u =
     (if u = ''p1'' then Inr \<lparr>page_value = Some [1, 2], page_nextLink = Some ''p2''\<rparr>
      else if u = ''p2'' then Inr \<lparr>page_value = Some [3], page_nextLink = None\<rparr>
      else Inl RequestException)"

definition failing_second :: "string \<Rightarrow> py_error + nat page" where
  "failing_second u =
     (if u = ''p1'' then Inr \<lparr>page_value = Some [1, 2], page_nextLink = Some ''p2''\<rparr>
      else Inr \<lparr>page_value = None, page_nextLink = None\<rparr>)"

text \<open>
  A tenant with two packages whose display names sanitise to the same key. Every
  package has one policy and three assignments; the targets \<open>abcdef1\<close> and \<open>abcdef2\<close>
  resolve to "Team A" and the target \<open>zzz\<close> to "Team B". The import script exits with
  the status 1.
\<close>

definition demo_policy :: policy where
  "demo_policy =
     \<lparr>pol_id = Some ''q1'', pol_displayName = Some ''Default Policy'', durationInDays = None,
      requestApprovalSettings = Some \<lparr>isApprovalRequired = Some True, approvalStages = None\<rparr>\<rparr>"

definition demo_assignments :: "assignment_item list" where
  "demo_assignments =
     [\<lparr>asg_id = Some ''a1'', asg_targetId = Some ''abcdef1''\<rparr>,
      \<lparr>asg_id = Some ''a2'', asg_targetId = Some ''abcdef2''\<rparr>,
      \<lparr>asg_id = Some ''a3'', asg_targetId = Some ''zzz''\<rparr>]"

definition demo_pkg1 :: package where
  "demo_pkg1 = \<lparr>pkg_id = Some ''p1'', pkg_displayName = Some ''Finance Access'',
     pkg_catalogId = Some ''cat'', pkg_description = Some ''first''\<rparr>"

definition demo_pkg2 :: package where
  "demo_pkg2 = \<lparr>pkg_id = Some ''p2'', pkg_displayName = Some ''finance-access'',
     pkg_catalogId = Some ''cat'', pkg_description = None\<rparr>"

definition demo_world :: "package list \<Rightarrow> world" where
  "demo_world pkgs =
     \<lparr>acquire_token_for_client = (\<lambda>cid secret tid. Some ''token''),
      get_packages = (\<lambda>u. Inr \<lparr>page_value = Some pkgs, page_nextLink = None\<rparr>),
      get_policies = (\<lambda>u. Inr \<lparr>page_value = Some [demo_policy], page_nextLink = None\<rparr>),
      get_assignments = (\<lambda>u. Inr \<lparr>page_value = Some demo_assignments, page_nextLink = None\<rparr>),
      get_directory_object =
        (\<lambda>u. if u = GRAPH_API @ ''/directoryObjects/zzz''
             then Inr \<lparr>obj_displayName = Some ''Team B''\<rparr>
             else Inr \<lparr>obj_displayName = Some ''Team A''\<rparr>),
      dump_access_packages = (\<lambda>d. concat (map fst d)),
      dump_assignment_policies = (\<lambda>d. concat (map fst d)),
      dump_assignments = (\<lambda>d. concat (map (\<lambda>kv. target_id (snd kv)) d)),
      subprocess_run = (\<lambda>cmd. if cmd = [''terraform'', ''init''] then 0 else 1)\<rparr>"

definition demo_args :: "bool \<Rightarrow> bool \<Rightarrow> bool \<Rightarrow> args" where
  "demo_args grouped scaffold imports =
     \<lparr>client_id = ''id'', client_secret = ''secret'', tenant_id = ''tenant'',
      catalog_id_opt = ''cat'', out_dir = ''./iac'', grouped_tfvars = grouped,
      generate_main = scaffold, run_imports = imports\<rparr>"

text \<open>What the loop over the two packages leaves, with the grouping option set.\<close>

definition demo_collected :: acc where
  "demo_collected =
     \<lparr>access_packages = [(''finance_access'', \<lparr>catalog_id = ''cat'', description = []\<rparr>)],
      assignment_policies =
        [(''finance_access_default_policy'',
          \<lparr>access_package_key = ''finance_access'', duration_in_days = 30, request_approval = True,
           approvers_primary = [], approvers_secondary = []\<rparr>)],
      assignments =
        [(''finance_access_user_abcdef'', \<lparr>access_package_key = ''finance_access'', target_id = ''abcdef2''\<rparr>),
         (''finance_access_user_zzz'', \<lparr>access_package_key = ''finance_access'', target_id = ''zzz''\<rparr>)],
      grouped_assignments =
        [(''team_a'',
          [(''finance_access_user_abcdef'', \<lparr>access_package_key = ''finance_access'', target_id = ''abcdef2''\<rparr>)]),
         (''team_b'',
          [(''finance_access_user_zzz'', \<lparr>access_package_key = ''finance_access'', target_id = ''zzz''\<rparr>)])],
      import_cmds =
        [''terraform import azuread_access_package.finance_access p1'',
         ''terraform import azuread_access_package_assignment_policy.finance_access_default_policy q1'',
         ''terraform import azuread_access_package_assignment.finance_access_user_abcdef a1'',
         ''terraform import azuread_access_package_assignment.finance_access_user_abcdef a2'',
         ''terraform import azuread_access_package_assignment.finance_access_user_zzz a3'',
         ''terraform import azuread_access_package.finance_access p2'',
         ''terraform import azuread_access_package_assignment_policy.finance_access_default_policy q1'',
         ''terraform import azuread_access_package_assignment.finance_access_user_abcdef a1'',
         ''terraform import azuread_access_package_assignment.finance_access_user_abcdef a2'',
         ''terraform import azuread_access_package_assignment.finance_access_user_zzz a3'']\<rparr>"

section \<open>The sanitiser\<close>









section \<open>The loops\<close>

lemma set_update_cases:
  "kv \<in> set (AList.update k v al) \<Longrightarrow> kv = (k, v) \<or> kv \<in> set al"
  by (induction al) (auto split: if_splits)

lemma keys_update: "fst ` set (AList.update k v al) = insert k (fst ` set al)"
  by (simp add: dom_update)

lemma main_policies_frame:
  "main_policies name pols st = Inr st' \<Longrightarrow>
   access_packages st' = access_packages st \<and> assignments st' = assignments st \<and>
   grouped_assignments st' = grouped_assignments st"
  by (induction pols arbitrary: st) (auto split: option.splits simp: Let_def)

lemma main_policies_keys:
  "main_policies name pols st = Inr st' \<Longrightarrow> kv \<in> set (assignment_policies st') \<Longrightarrow>
   kv \<in> set (assignment_policies st) \<or> access_package_key (snd kv) = name"
proof (induction pols arbitrary: st)
  case Nil
  then show ?case by simp
next
  case (Cons pol pols)
  then show ?case
    by (fastforce split: option.splits simp: Let_def policy_entry_def dest: set_update_cases)
qed

lemma main_policies_ok:
  "list_all policy_ok pols \<Longrightarrow> \<exists>st'. main_policies name pols st = Inr st'"
  by (induction pols arbitrary: st) (auto simp: policy_ok_def Let_def)

lemma main_assignments_frame:
  "main_assignments w a name xs st = Inr st' \<Longrightarrow>
   access_packages st' = access_packages st \<and> assignment_policies st' = assignment_policies st"
  by (induction xs arbitrary: st) (auto split: option.splits sum.splits if_splits simp: Let_def)

lemma main_assignments_ok:
  "list_all (assignment_ok w) xs \<Longrightarrow> \<exists>st'. main_assignments w a name xs st = Inr st'"
  by (induction xs arbitrary: st) (auto simp: assignment_ok_def Let_def split: option.splits sum.splits)

lemma main_assignments_rows:
  "main_assignments w a name xs st = Inr st' \<Longrightarrow>
   assignments st' = fold (\<lambda>r. AList.update (fst (snd r)) (snd (snd r))) (assignment_rows w name xs) (assignments st)
   \<and> grouped_assignments st' =
       (if grouped_tfvars a
        then fold (\<lambda>r. group_add (fst r) (fst (snd r)) (snd (snd r))) (assignment_rows w name xs) (grouped_assignments st)
        else grouped_assignments st)"
proof (induction xs arbitrary: st)
  case Nil
  then show ?case by (simp add: assignment_rows_def)
next
  case (Cons x xs)
  then show ?case
    by (auto split: option.splits sum.splits if_splits simp: Let_def assignment_rows_def assignment_row_def)
qed


lemma main_packages_ConsE:
  assumes "main_packages w a (pkg # pkgs) st = Some (Inr st')"
  obtains dn cat i pols xs st2 st3 st4 where
    "pkg_displayName pkg = Some dn" "pkg_catalogId pkg = Some cat" "pkg_id pkg = Some i"
    "access_packages st2 =
       AList.update (safe dn)
         \<lparr>catalog_id = cat, description = (case pkg_description pkg of None \<Rightarrow> [] | Some d \<Rightarrow> d)\<rparr>
         (access_packages st)"
    "assignment_policies st2 = assignment_policies st"
    "assignments st2 = assignments st"
    "grouped_assignments st2 = grouped_assignments st"
    "import_cmds st2 = import_cmds st @ [''terraform import azuread_access_package.'' @ safe dn @ '' '' @ i]"
    "get_all (get_policies w) (policies_url i) = Some (Inr pols)"
    "main_policies (safe dn) pols st2 = Inr st3"
    "get_all (get_assignments w) (assignments_url i) = Some (Inr xs)"
    "main_assignments w a (safe dn) xs st3 = Inr st4"
    "main_packages w a pkgs st4 = Some (Inr st')"
proof -
  from assms obtain dn where dn: "pkg_displayName pkg = Some dn"
    by (auto split: option.splits)
  from assms dn obtain cat where cat: "pkg_catalogId pkg = Some cat"
    by (auto split: option.splits simp: Let_def)
  from assms dn cat obtain i where i: "pkg_id pkg = Some i"
    by (auto split: option.splits simp: Let_def)
  define st1 where "st1 = st\<lparr>access_packages :=
       AList.update (safe dn)
         \<lparr>catalog_id = cat, description = (case pkg_description pkg of None \<Rightarrow> [] | Some d \<Rightarrow> d)\<rparr>
         (access_packages st)\<rparr>"
  define st2 where "st2 = st1\<lparr>import_cmds := import_cmds st1 @
       [''terraform import azuread_access_package.'' @ safe dn @ '' '' @ i]\<rparr>"
  from assms dn cat i have run:
    "(case get_all (get_policies w) (policies_url i) of
        None \<Rightarrow> None
      | Some (Inl e) \<Rightarrow> Some (Inl e)
      | Some (Inr pols) \<Rightarrow>
          (case main_policies (safe dn) pols st2 of
             Inl e \<Rightarrow> Some (Inl e)
           | Inr st3 \<Rightarrow>
               (case get_all (get_assignments w) (assignments_url i) of
                  None \<Rightarrow> None
                | Some (Inl e) \<Rightarrow> Some (Inl e)
                | Some (Inr assigns) \<Rightarrow>
                    (case main_assignments w a (safe dn) assigns st3 of
                       Inl e \<Rightarrow> Some (Inl e)
                     | Inr st4 \<Rightarrow> main_packages w a pkgs st4)))) = Some (Inr st')"
    unfolding st2_def st1_def
    by (simp only: main_packages.simps option.case Let_def)
  from run obtain pols where pols: "get_all (get_policies w) (policies_url i) = Some (Inr pols)"
    by (auto split: option.splits sum.splits)
  from run pols obtain st3 where st3: "main_policies (safe dn) pols st2 = Inr st3"
    by (auto split: option.splits sum.splits)
  from run pols st3 obtain xs where xs: "get_all (get_assignments w) (assignments_url i) = Some (Inr xs)"
    by (auto split: option.splits sum.splits)
  from run pols st3 xs obtain st4 where st4: "main_assignments w a (safe dn) xs st3 = Inr st4"
    by (auto split: option.splits sum.splits)
  from run pols st3 xs st4 have rest: "main_packages w a pkgs st4 = Some (Inr st')"
    by simp
  show thesis
    by (rule that [OF dn cat i _ _ _ _ _ pols st3 xs st4 rest]) (simp_all add: st2_def st1_def)
qed

lemma main_packages_ok:
  "list_all (package_ok w) pkgs \<Longrightarrow> \<exists>st'. main_packages w a pkgs st = Some (Inr st')"
proof (induction pkgs arbitrary: st)
  case Nil
  then show ?case by simp
next
  case (Cons pkg pkgs)
  from Cons.prems have ok: "package_ok w pkg" and rest: "list_all (package_ok w) pkgs"
    by simp_all
  from ok obtain dn cat i pols xs where
    dn: "pkg_displayName pkg = Some dn" and cat: "pkg_catalogId pkg = Some cat" and
    i: "pkg_id pkg = Some i" and
    pols: "get_all (get_policies w) (policies_url i) = Some (Inr pols)" "list_all policy_ok pols" and
    xs: "get_all (get_assignments w) (assignments_url i) = Some (Inr xs)" "list_all (assignment_ok w) xs"
    by (auto simp: package_ok_def split: option.splits sum.splits)
  define st1 where "st1 = st\<lparr>access_packages :=
       AList.update (safe dn)
         \<lparr>catalog_id = cat, description = (case pkg_description pkg of None \<Rightarrow> [] | Some d \<Rightarrow> d)\<rparr>
         (access_packages st)\<rparr>"
  define st2 where "st2 = st1\<lparr>import_cmds := import_cmds st1 @
       [''terraform import azuread_access_package.'' @ safe dn @ '' '' @ i]\<rparr>"
  from main_policies_ok [OF pols(2)] obtain st3 where st3: "main_policies (safe dn) pols st2 = Inr st3"
    by blast
  from main_assignments_ok [OF xs(2)] obtain st4 where st4: "main_assignments w a (safe dn) xs st3 = Inr st4"
    by blast
  from Cons.IH [OF rest] obtain st' where "main_packages w a pkgs st4 = Some (Inr st')"
    by blast
  with dn cat i pols(1) xs(1) st3 st4 show ?case
    unfolding st2_def st1_def
    by (simp only: main_packages.simps option.case sum.case Let_def) blast
qed

lemma main_packages_sem:
  "main_packages w a pkgs st = Some (Inr st') \<Longrightarrow>
   access_packages st' =
     fold (\<lambda>kv. AList.update (fst kv) (snd kv)) (concat (map package_entry pkgs)) (access_packages st)
   \<and> assignments st' =
     fold (\<lambda>r. AList.update (fst (snd r)) (snd (snd r))) (all_rows w pkgs) (assignments st)
   \<and> grouped_assignments st' =
       (if grouped_tfvars a
        then fold (\<lambda>r. group_add (fst r) (fst (snd r)) (snd (snd r))) (all_rows w pkgs) (grouped_assignments st)
        else grouped_assignments st)"
proof (induction pkgs arbitrary: st)
  case Nil
  then show ?case by (simp add: all_rows_def)
next
  case (Cons pkg pkgs)
  from Cons.prems show ?case
  proof (rule main_packages_ConsE)
    fix dn cat i pols xs st2 st3 st4
    assume h: "pkg_displayName pkg = Some dn" "pkg_catalogId pkg = Some cat" "pkg_id pkg = Some i"
      "access_packages st2 =
         AList.update (safe dn)
           \<lparr>catalog_id = cat, description = (case pkg_description pkg of None \<Rightarrow> [] | Some d \<Rightarrow> d)\<rparr>
           (access_packages st)"
      "assignment_policies st2 = assignment_policies st"
      "assignments st2 = assignments st"
      "grouped_assignments st2 = grouped_assignments st"
      "get_all (get_assignments w) (assignments_url i) = Some (Inr xs)"
      and p: "main_policies (safe dn) pols st2 = Inr st3"
      and x: "main_assignments w a (safe dn) xs st3 = Inr st4"
      and r: "main_packages w a pkgs st4 = Some (Inr st')"
    note f3 = main_policies_frame [OF p]
    note f4 = main_assignments_frame [OF x] main_assignments_rows [OF x]
    have e: "package_entry pkg =
        [(safe dn, \<lparr>catalog_id = cat, description = (case pkg_description pkg of None \<Rightarrow> [] | Some d \<Rightarrow> d)\<rparr>)]"
      using h by (simp add: package_entry_def)
    have rows: "package_rows w pkg = assignment_rows w (safe dn) xs"
      using h by (simp add: package_rows_def)
    from Cons.IH [OF r] f3 f4 h e rows show ?thesis
      by (simp add: all_rows_def)
  qed
qed

lemma fold_update_keys:
  "fst ` set (fold (\<lambda>kv. AList.update (fst kv) (snd kv)) kvs al) = fst ` set kvs \<union> fst ` set al"
  by (induction kvs arbitrary: al) (auto simp: keys_update)

lemma main_assignments_keys:
  "main_assignments w a name xs st = Inr st' \<Longrightarrow> kv \<in> set (assignments st') \<Longrightarrow>
   kv \<in> set (assignments st) \<or> access_package_key (snd kv) = name"
proof (induction xs arbitrary: st)
  case Nil
  then show ?case by simp
next
  case (Cons x xs)
  from Cons.prems(1) obtain tid st3 where
    t: "asg_targetId x = Some tid" and
    r: "main_assignments w a name xs st3 = Inr st'" and
    s3: "assignments st3 =
           AList.update (name @ ''_user_'' @ take 6 tid)
             \<lparr>access_package_key = name, target_id = tid\<rparr> (assignments st)"
    by (auto split: option.splits sum.splits if_splits simp: Let_def)
  from Cons.IH [OF r Cons.prems(2)] show ?case
  proof
    assume "kv \<in> set (assignments st3)"
    with s3 show ?thesis
      by (auto dest: set_update_cases)
  next
    assume "access_package_key (snd kv) = name"
    then show ?thesis by simp
  qed
qed

lemma refs_ok_iff:
  "refs_ok st \<longleftrightarrow>
     (\<forall>kv \<in> set (assignment_policies st). access_package_key (snd kv) \<in> fst ` set (access_packages st)) \<and>
     (\<forall>kv \<in> set (assignments st). access_package_key (snd kv) \<in> fst ` set (access_packages st))"
  by (simp add: refs_ok_def list_all_iff)

lemma main_packages_refs:
  "main_packages w a pkgs st = Some (Inr st') \<Longrightarrow> refs_ok st \<Longrightarrow> refs_ok st'"
proof (induction pkgs arbitrary: st)
  case Nil
  then show ?case by simp
next
  case (Cons pkg pkgs)
  from Cons.prems(1) show ?case
  proof (rule main_packages_ConsE)
    fix dn cat i pols xs st2 st3 st4
    assume h:
      "access_packages st2 =
         AList.update (safe dn)
           \<lparr>catalog_id = cat, description = (case pkg_description pkg of None \<Rightarrow> [] | Some d \<Rightarrow> d)\<rparr>
           (access_packages st)"
      "assignment_policies st2 = assignment_policies st"
      "assignments st2 = assignments st"
      and p: "main_policies (safe dn) pols st2 = Inr st3"
      and x: "main_assignments w a (safe dn) xs st3 = Inr st4"
      and r: "main_packages w a pkgs st4 = Some (Inr st')"
    let ?K = "insert (safe dn) (fst ` set (access_packages st))"
    have keys2: "fst ` set (access_packages st2) = ?K"
      using h(1) by (simp add: keys_update)
    note f3 = main_policies_frame [OF p]
    note f4 = main_assignments_frame [OF x]
    have keys4: "fst ` set (access_packages st4) = ?K"
      using keys2 f3 f4 by simp
    from Cons.prems(2) have
      old_pol: "\<And>kv. kv \<in> set (assignment_policies st) \<Longrightarrow> access_package_key (snd kv) \<in> ?K" and
      old_asg: "\<And>kv. kv \<in> set (assignments st) \<Longrightarrow> access_package_key (snd kv) \<in> ?K"
      by (simp_all add: refs_ok_iff)
    have pol4: "access_package_key (snd kv) \<in> ?K" if "kv \<in> set (assignment_policies st4)" for kv
    proof -
      from that f4 have "kv \<in> set (assignment_policies st3)" by simp
      from main_policies_keys [OF p this] show ?thesis
      proof
        assume "kv \<in> set (assignment_policies st2)"
        with h(2) have "kv \<in> set (assignment_policies st)" by simp
        then show ?thesis by (rule old_pol)
      next
        assume "access_package_key (snd kv) = safe dn"
        then show ?thesis by simp
      qed
    qed
    have asg4: "access_package_key (snd kv) \<in> ?K" if "kv \<in> set (assignments st4)" for kv
    proof -
      from main_assignments_keys [OF x that] show ?thesis
      proof
        assume "kv \<in> set (assignments st3)"
        with f3 h(3) have "kv \<in> set (assignments st)" by simp
        then show ?thesis by (rule old_asg)
      next
        assume "access_package_key (snd kv) = safe dn"
        then show ?thesis by simp
      qed
    qed
    from pol4 asg4 keys4 have "refs_ok st4"
      by (simp add: refs_ok_iff)
    with Cons.IH [OF r] show ?thesis by simp
  qed
qed

lemma fold_update_map_of:
  "map_of (fold (\<lambda>kv. AList.update (fst kv) (snd kv)) kvs al) k =
     (case map_of (rev kvs) k of Some v \<Rightarrow> Some v | None \<Rightarrow> map_of al k)"
proof (induction kvs arbitrary: al)
  case Nil
  then show ?case by simp
next
  case (Cons kv kvs)
  show ?case
    by (cases kv) (simp add: Cons.IH update_conv' map_add_def split: option.splits)
qed

lemma fold_update_distinct:
  "distinct (map fst al) \<Longrightarrow>
   distinct (map fst (fold (\<lambda>kv. AList.update (fst kv) (snd kv)) kvs al))"
  by (induction kvs arbitrary: al) (simp_all add: distinct_update)

lemma map_of_rev_last:
  assumes "k \<notin> fst ` set post"
  shows "map_of (rev (pre @ (k, v) # post)) k = Some v"
proof -
  from assms have "map_of (rev post) k = None"
    by (simp add: map_of_eq_None_iff)
  then show ?thesis
    by (simp add: map_add_def)
qed

lemma refs_ok_init: "refs_ok acc_init"
  by (simp add: refs_ok_def acc_init_def)

section \<open>Facts about the example runs\<close>

lemma demo_collect:
  "main_collect (demo_world [demo_pkg1, demo_pkg2]) (demo_args True False False) = Some (Inr demo_collected)"
  by code_simp

lemma demo_packages_ok: "list_all (package_ok (demo_world pkgs)) [demo_pkg1, demo_pkg2]"
  by code_simp

lemma demo_get_packages:
  "get_all (get_packages (demo_world pkgs)) (packages_url c) = Some (Inr pkgs)"
  by (simp add: get_all_def get_all_loop.simps demo_world_def packages_url_def GRAPH_API_def page_items_def)

lemma demo_collect_empty: "main_collect (demo_world []) a = Some (Inr acc_init)"
  by (simp add: main_collect_def demo_get_packages)

lemma demo_token:
  "acquire_token_for_client (demo_world pkgs) cid secret tid = Some ''token''"
  by (simp add: demo_world_def)

lemma demo_get_policies:
  "get_all (get_policies (demo_world pkgs)) (policies_url i) = Some (Inr [demo_policy])"
  by (simp add: get_all_def get_all_loop.simps demo_world_def policies_url_def GRAPH_API_def page_items_def)

lemma demo_get_assignments:
  "get_all (get_assignments (demo_world pkgs)) (assignments_url i) = Some (Inr demo_assignments)"
  by (simp add: get_all_def get_all_loop.simps demo_world_def assignments_url_def GRAPH_API_def page_items_def)

lemma demo_assignments_ok: "list_all (assignment_ok (demo_world pkgs)) demo_assignments"
  by code_simp

lemma assignment_rows_append:
  "assignment_rows w name (xs @ ys) = assignment_rows w name xs @ assignment_rows w name ys"
  by (simp add: assignment_rows_def)

lemma assignment_rows_Cons:
  "assignment_rows w name (x # xs) = assignment_row w name x @ assignment_rows w name xs"
  by (simp add: assignment_rows_def)

lemma assignment_row_ok:
  assumes "assignment_ok w x" and "asg_targetId x = Some t"
  obtains dn where "get_display_name (get_directory_object w) t = Inr dn"
    and "assignment_row w name x =
           [(safe dn, name @ ''_user_'' @ take 6 t, \<lparr>access_package_key = name, target_id = t\<rparr>)]"
  using assms by (auto simp: assignment_ok_def assignment_row_def split: sum.splits)

lemma assignment_row_elem:
  assumes "r \<in> set (assignment_row w name x)"
  shows "\<exists>t dn. asg_targetId x = Some t \<and> get_display_name (get_directory_object w) t = Inr dn \<and>
           r = (safe dn, name @ ''_user_'' @ take 6 t, \<lparr>access_package_key = name, target_id = t\<rparr>)"
proof (cases "asg_targetId x")
  case None
  with assms show ?thesis by (simp add: assignment_row_def)
next
  case (Some t)
  show ?thesis
  proof (cases "get_display_name (get_directory_object w) t")
    case (Inl e)
    with assms Some show ?thesis by (simp add: assignment_row_def)
  next
    case (Inr dn)
    with assms Some show ?thesis by (simp add: assignment_row_def)
  qed
qed

lemma assignment_rows_elem:
  assumes "r \<in> set (assignment_rows w name xs)"
  obtains x t dn where "x \<in> set xs" and "asg_targetId x = Some t"
    and "get_display_name (get_directory_object w) t = Inr dn"
    and "r = (safe dn, name @ ''_user_'' @ take 6 t, \<lparr>access_package_key = name, target_id = t\<rparr>)"
proof -
  from assms obtain x where "x \<in> set xs" and "r \<in> set (assignment_row w name x)"
    by (auto simp: assignment_rows_def)
  with assignment_row_elem [of r w name x] that show thesis
    by blast
qed

lemma fold_update_rows:
  "fold (\<lambda>r. AList.update (fst (snd r)) (snd (snd r))) rows al
     = fold (\<lambda>kv. AList.update (fst kv) (snd kv)) (map snd rows) al"
  by (simp add: fold_map comp_def)

section \<open>Groups and files\<close>








lemma tfvars_name_inject: "g @ ''.tfvars'' = g' @ ''.tfvars'' \<longleftrightarrow> g = g'"
  by simp

lemma tfvars_name_last: "last (g @ ''.tfvars'') = CHR ''s''"
  by simp

lemma tfvars_not_scaffold:
  "g @ ''.tfvars'' \<noteq> ''main.tf''" "g @ ''.tfvars'' \<noteq> ''variables.tf''"
  "g @ ''.tfvars'' \<noteq> ''terraform_import.sh''"
proof -
  show "g @ ''.tfvars'' \<noteq> ''main.tf''"
    using tfvars_name_last [of g] by (auto simp del: last_append)
  show "g @ ''.tfvars'' \<noteq> ''variables.tf''"
    using tfvars_name_last [of g] by (auto simp del: last_append)
  show "g @ ''.tfvars'' \<noteq> ''terraform_import.sh''"
    using tfvars_name_last [of g] by (auto simp del: last_append)
qed

lemma files_write_file:
  "files (write_file name content out) f = (if f = name then Some content else files out f)"
  by (simp add: write_file_def)

lemma files_print: "files (print m out) = files out"
  by (simp add: print_def)

lemma files_write_group:
  "files (write_group w gd out) f =
     (if f = fst gd @ ''.tfvars'' then Some (''assignments = '' @ dump_assignments w (snd gd))
      else files out f)"
  by (simp add: write_group_def files_print files_write_file)

lemma files_fold_write_group_other:
  "\<forall>gd \<in> set gs. f \<noteq> fst gd @ ''.tfvars'' \<Longrightarrow> files (fold (write_group w) gs out) f = files out f"
  by (induction gs arbitrary: out) (simp_all add: files_write_group)


lemma files_main_write_tfvars:
  "f \<noteq> ''terraform.tfvars'' \<Longrightarrow> files (main_write_tfvars w st out) f = files out f"
  by (simp add: main_write_tfvars_def files_print files_write_file)

lemma files_main_write_import_script:
  "f \<noteq> ''terraform_import.sh'' \<Longrightarrow> files (main_write_import_script st out) f = files out f"
  by (simp add: main_write_import_script_def files_print files_write_file)

lemma files_main_scaffold_other:
  "f \<noteq> ''main.tf'' \<Longrightarrow> f \<noteq> ''variables.tf'' \<Longrightarrow> files (main_scaffold a out) f = files out f"
  by (simp add: main_scaffold_def Let_def files_print files_write_file)

lemma files_main_scaffold_kept:
  "files out f \<noteq> None \<Longrightarrow> files (main_scaffold a out) f = files out f"
  by (auto simp: main_scaffold_def Let_def files_print files_write_file path_exists_def)

lemma files_main_run_imports: "files (main_run_imports w a out) = files out"
  by (simp add: main_run_imports_def Let_def files_print)

lemma main_returns:
  assumes "acquire_token_for_client w (client_id a) (client_secret a) (tenant_id a) = Some tok"
    and "main_collect w a = Some (Inr st)"
  shows "main w a fs =
     Some (main_emit w a st (print Fetching_access_packages \<lparr>files = fs, stdout = [], raised = None\<rparr>))"
  using assms by (simp add: main_def get_token_def Let_def)


lemma files_main_files_scaffold:
  assumes "f = ''main.tf'' \<or> f = ''variables.tf''" and "files out f = Some c"
  shows "files (main_files w a st out) f = Some c"
proof -
  have g: "\<forall>gd \<in> set gs. f \<noteq> fst gd @ ''.tfvars''" for gs :: "(string \<times> (string \<times> assignment) list) list"
    using assms(1) tfvars_not_scaffold by metis
  have "files (main_write_groups w a st (main_write_tfvars w st out)) f = files out f"
    using assms(1) by (auto simp: main_write_groups_def files_fold_write_group_other [OF g] files_main_write_tfvars)
  then have "files (main_write_import_script st (main_write_groups w a st (main_write_tfvars w st out))) f = Some c"
    using assms by (auto simp: files_main_write_import_script)
  then show ?thesis
    by (simp add: main_files_def files_main_scaffold_kept)
qed

lemma main_keeps_scaffold:
  assumes "main w a fs = Some out" and "f = ''main.tf'' \<or> f = ''variables.tf''" and "fs f = Some c"
  shows "files out f = Some c"
proof (cases "get_token w (client_id a) (client_secret a) (tenant_id a)")
  case (Inl e)
  with assms show ?thesis by (auto simp: main_def)
next
  case (Inr tok)
  let ?out1 = "print Fetching_access_packages \<lparr>files = fs, stdout = [], raised = None\<rparr>"
  have f1: "files ?out1 f = Some c"
    using assms(3) by (simp add: files_print)
  from assms(1) Inr consider e where "main_collect w a = Some (Inl e)" "out = ?out1\<lparr>raised := Some e\<rparr>"
    | st where "main_collect w a = Some (Inr st)" "out = main_emit w a st ?out1"
    by (auto simp: main_def Let_def split: option.splits sum.splits)
  then show ?thesis
  proof cases
    case 1
    with f1 show ?thesis by simp
  next
    case 2
    with files_main_files_scaffold [OF assms(2) f1] show ?thesis
      by (simp add: main_emit_def files_main_run_imports)
  qed
qed

section \<open>The import runner and the subprocesses\<close>

lemma raised_fold_write_group: "raised (fold (write_group w) gs out) = raised out"
  by (induction gs arbitrary: out) (simp_all add: write_group_def print_def write_file_def)

lemma raised_main_files: "raised (main_files w a st out) = raised out"
  by (simp add: main_files_def main_scaffold_def main_write_import_script_def main_write_groups_def
      main_write_tfvars_def raised_fold_write_group print_def write_file_def Let_def)

lemma main_assignments_subprocess:
  "main_assignments (w\<lparr>subprocess_run := f\<rparr>) a name xs st = main_assignments w a name xs st"
  by (induction xs arbitrary: st) (simp_all add: Let_def cong: option.case_cong sum.case_cong)

lemma main_packages_subprocess:
  "main_packages (w\<lparr>subprocess_run := f\<rparr>) a pkgs st = main_packages w a pkgs st"
  by (induction pkgs arbitrary: st)
    (simp_all add: Let_def main_assignments_subprocess cong: option.case_cong sum.case_cong)

lemma main_collect_subprocess:
  "main_collect (w\<lparr>subprocess_run := f\<rparr>) a = main_collect w a"
  by (simp add: main_collect_def main_packages_subprocess cong: option.case_cong sum.case_cong)

lemma write_group_subprocess: "write_group (w\<lparr>subprocess_run := f\<rparr>) = write_group w"
  by (simp add: fun_eq_iff write_group_def)

lemma main_files_subprocess:
  "main_files (w\<lparr>subprocess_run := f\<rparr>) a st out = main_files w a st out"
  by (simp add: main_files_def main_write_groups_def main_write_tfvars_def write_group_subprocess)

lemma main_run_imports_script_status:
  "main_run_imports (w\<lparr>subprocess_run := (subprocess_run w)([''bash'', ''terraform_import.sh''] := status)\<rparr>) a out
     = main_run_imports w a out"
  by (simp add: main_run_imports_def Let_def)

lemma main_script_status:
  "main (w\<lparr>subprocess_run := (subprocess_run w)([''bash'', ''terraform_import.sh''] := status)\<rparr>) a fs
     = main w a fs"
  by (simp add: main_def get_token_def Let_def main_collect_subprocess main_emit_def
      main_files_subprocess main_run_imports_script_status cong: option.case_cong sum.case_cong)

section \<open>The paginated fetcher\<close>

lemma get_all_loop_serves:
  "serves rg url pages \<Longrightarrow>
   get_all_loop rg (Some url) items = Some (Inr (items @ concat (map page_items pages)))"
proof (induction pages arbitrary: url items)
  case Nil
  then show ?case by simp
next
  case (Cons p ps)
  from Cons.prems have u: "url \<noteq> []" and r: "rg url = Inr p" by simp_all
  have step: "get_all_loop rg (Some url) items = get_all_loop rg (page_nextLink p) (items @ page_items p)"
    using u r by (subst get_all_loop.simps) simp
  show ?case
  proof (cases "ps = []")
    case True
    with Cons.prems have "page_nextLink p = None" by simp
    with step True show ?thesis by (simp add: get_all_loop.simps)
  next
    case False
    with Cons.prems obtain v where v: "page_nextLink p = Some v" and s: "serves rg v ps"
      by (auto split: option.splits)
    from Cons.IH [OF s] step v show ?thesis by simp
  qed
qed

text \<open>
  Claim C1. When the responses met from the first URL on form a finite sequence whose
  last response has no continuation link, \<open>get_all\<close> returns, and returns exactly the
  concatenation of the item lists of the pages, in the order the pages were met.
\<close>

theorem get_all_concatenates_pages:
  "serves requests_get url pages \<Longrightarrow>
   get_all requests_get url = Some (Inr (concat (map page_items pages)))"
  unfolding get_all_def by (simp add: get_all_loop_serves)

theorem get_all_concatenates_pages_witness:
  "serves two_pages ''p1''
     [\<lparr>page_value = Some [1, 2], page_nextLink = Some ''p2''\<rparr>,
      \<lparr>page_value = Some [3], page_nextLink = None\<rparr>]
   \<and> get_all two_pages ''p1'' = Some (Inr [1, 2, 3])"
proof -
  have h: "serves two_pages ''p1''
     [\<lparr>page_value = Some [1, 2], page_nextLink = Some ''p2''\<rparr>,
      \<lparr>page_value = Some [3], page_nextLink = None\<rparr>]"
    by (simp add: two_pages_def)
  from get_all_concatenates_pages [OF h] h show ?thesis
    by (simp add: page_items_def)
qed

text \<open>
  Claim C3. When a response of a paginated fetch is an error response (no item list and no
  continuation link), \<open>get_all\<close> returns the items of the pages before it, as a normal
  result; an error response on the first page gives the empty list.
\<close>

theorem get_all_swallows_error_response:
  assumes "serves requests_get url (pages @ [err])" and "is_error_response err"
  shows "get_all requests_get url = Some (Inr (concat (map page_items pages)))
         \<and> (pages = [] \<longrightarrow> get_all requests_get url = Some (Inr []))"
proof -
  from assms(2) have "page_items err = []"
    by (simp add: is_error_response_def page_items_def)
  with get_all_loop_serves [OF assms(1), of "[]"] show ?thesis
    by (auto simp: get_all_def)
qed

theorem get_all_swallows_error_response_witness:
  "serves failing_second ''p1''
     ([\<lparr>page_value = Some [1, 2], page_nextLink = Some ''p2''\<rparr>] @
      [\<lparr>page_value = None, page_nextLink = None\<rparr>])
   \<and> is_error_response \<lparr>page_value = None :: nat list option, page_nextLink = None\<rparr>
   \<and> get_all failing_second ''p1'' = Some (Inr [1, 2])
   \<and> serves failing_second ''p2'' ([] @ [\<lparr>page_value = None, page_nextLink = None\<rparr>])
   \<and> get_all failing_second ''p2'' = Some (Inr [])"
proof -
  let ?e = "\<lparr>page_value = None :: nat list option, page_nextLink = None\<rparr>"
  have h1: "serves failing_second ''p1''
     ([\<lparr>page_value = Some [1, 2], page_nextLink = Some ''p2''\<rparr>] @ [?e])"
    by (simp add: failing_second_def)
  have h2: "serves failing_second ''p2'' ([] @ [?e])"
    by (simp add: failing_second_def)
  have e: "is_error_response ?e"
    by (simp add: is_error_response_def)
  from get_all_swallows_error_response [OF h1 e] get_all_swallows_error_response [OF h2 e] h1 h2 e
  show ?thesis
    by (simp add: page_items_def)
qed

section \<open>Referential integrity\<close>

text \<open>
  Claim C9. After the loop over the packages, every value of \<open>assignment_policies\<close> and
  of \<open>assignments\<close> has an \<open>access_package_key\<close> that is a key of \<open>access_packages\<close>.
  The three mappings are not changed after the loop.
\<close>

theorem referential_integrity:
  "main_collect w a = Some (Inr st) \<Longrightarrow> refs_ok st"
  unfolding main_collect_def
  by (auto split: option.splits sum.splits dest: main_packages_refs simp: refs_ok_init)

theorem referential_integrity_witness:
  "main_collect (demo_world [demo_pkg1, demo_pkg2]) (demo_args True False False) = Some (Inr demo_collected)
   \<and> refs_ok demo_collected"
  using referential_integrity [OF demo_collect] demo_collect by simp

section \<open>Packages with the same key\<close>

lemma package_entry_key:
  "kv \<in> set (package_entry p) \<Longrightarrow> \<exists>n. pkg_displayName p = Some n \<and> fst kv = safe n"
  by (cases "pkg_displayName p"; cases "pkg_catalogId p") (auto simp: package_entry_def)

text \<open>
  Claim C4. When two packages have display names that sanitise to the same key, the run
  raises nothing, and \<open>access_packages\<close> holds under that key the entry of the package
  processed later (the last one with that key): each key occurs once, the entry of the
  earlier package is replaced.
\<close>

theorem later_package_overwrites_earlier:
  assumes pk: "get_all (get_packages w) (packages_url (catalog_id_opt a))
                 = Some (Inr (pre @ p1 # mid @ p2 # post))"
    and ok: "list_all (package_ok w) (pre @ p1 # mid @ p2 # post)"
    and n1: "pkg_displayName p1 = Some n1"
    and n2: "pkg_displayName p2 = Some n2"
    and c2: "pkg_catalogId p2 = Some c2"
    and same: "safe n1 = safe n2"
    and last: "\<forall>p \<in> set post. \<forall>n. pkg_displayName p = Some n \<longrightarrow> safe n \<noteq> safe n2"
  shows "\<exists>st. main_collect w a = Some (Inr st)
           \<and> map_of (access_packages st) (safe n1)
               = Some \<lparr>catalog_id = c2,
                       description = (case pkg_description p2 of None \<Rightarrow> [] | Some d \<Rightarrow> d)\<rparr>
           \<and> distinct (map fst (access_packages st))"
proof -
  let ?pkgs = "pre @ p1 # mid @ p2 # post"
  let ?e2 = "\<lparr>catalog_id = c2, description = (case pkg_description p2 of None \<Rightarrow> [] | Some d \<Rightarrow> d)\<rparr>"
  from main_packages_ok [OF ok] obtain st where
    run: "main_packages w a ?pkgs acc_init = Some (Inr st)"
    by blast
  from run pk have col: "main_collect w a = Some (Inr st)"
    by (simp add: main_collect_def)
  from main_packages_sem [OF run] have
    ap: "access_packages st = fold (\<lambda>kv. AList.update (fst kv) (snd kv)) (concat (map package_entry ?pkgs)) []"
    by (simp add: acc_init_def)
  have e2: "package_entry p2 = [(safe n2, ?e2)]"
    using n2 c2 by (simp add: package_entry_def)
  have parts: "concat (map package_entry ?pkgs)
      = (concat (map package_entry pre) @ package_entry p1 @ concat (map package_entry mid))
        @ (safe n2, ?e2) # concat (map package_entry post)"
    by (simp add: e2)
  have "safe n2 \<notin> fst ` set (concat (map package_entry post))"
    using last by (auto dest!: package_entry_key)
  then have "map_of (rev (concat (map package_entry ?pkgs))) (safe n2) = Some ?e2"
    by (subst parts) (rule map_of_rev_last)
  then have "map_of (access_packages st) (safe n2) = Some ?e2"
    unfolding ap by (simp only: fold_update_map_of option.case)
  moreover have "distinct (map fst (access_packages st))"
    unfolding ap by (rule fold_update_distinct) simp
  ultimately show ?thesis
    using col same by simp
qed

theorem later_package_overwrites_earlier_witness:
  "get_all (get_packages (demo_world [demo_pkg1, demo_pkg2])) (packages_url (catalog_id_opt (demo_args False False False)))
     = Some (Inr ([] @ demo_pkg1 # [] @ demo_pkg2 # []))
   \<and> list_all (package_ok (demo_world [demo_pkg1, demo_pkg2])) ([] @ demo_pkg1 # [] @ demo_pkg2 # [])
   \<and> safe ''Finance Access'' = safe ''finance-access''
   \<and> (\<exists>st. main_collect (demo_world [demo_pkg1, demo_pkg2]) (demo_args False False False) = Some (Inr st)
         \<and> map_of (access_packages st) (safe ''Finance Access'') = Some \<lparr>catalog_id = ''cat'', description = []\<rparr>
         \<and> distinct (map fst (access_packages st)))"
proof -
  let ?w = "demo_world [demo_pkg1, demo_pkg2]"
  have pk: "get_all (get_packages ?w) (packages_url (catalog_id_opt (demo_args False False False)))
     = Some (Inr ([] @ demo_pkg1 # [] @ demo_pkg2 # []))"
    by (simp add: demo_get_packages)
  have ok: "list_all (package_ok ?w) ([] @ demo_pkg1 # [] @ demo_pkg2 # [])"
    using demo_packages_ok by simp
  have n1: "pkg_displayName demo_pkg1 = Some ''Finance Access''"
    by (simp add: demo_pkg1_def)
  have n2: "pkg_displayName demo_pkg2 = Some ''finance-access''"
    by (simp add: demo_pkg2_def)
  have c2: "pkg_catalogId demo_pkg2 = Some ''cat''"
    by (simp add: demo_pkg2_def)
  have same: "safe ''Finance Access'' = safe ''finance-access''"
    by code_simp
  have last: "\<forall>p \<in> set []. \<forall>n. pkg_displayName p = Some n \<longrightarrow> safe n \<noteq> safe ''finance-access''"
    by simp
  from later_package_overwrites_earlier [OF pk ok n1 n2 c2 same last] pk ok same
  show ?thesis
    by (simp add: demo_pkg2_def)
qed

section \<open>Assignments with the same key\<close>

text \<open>
  Claim C10. The key of an assignment is the package key, \<open>_user_\<close> and the first 6
  characters of the target identifier. So when two assignments of one package have
  target identifiers with the same first 6 characters, the later one (the last with that
  prefix) replaces the earlier one in \<open>assignments\<close>.
\<close>

theorem later_assignment_overwrites_earlier:
  assumes ok: "list_all (assignment_ok w) (pre @ x1 # mid @ x2 # post)"
    and t1: "asg_targetId x1 = Some t1"
    and t2: "asg_targetId x2 = Some t2"
    and same: "take 6 t1 = take 6 t2"
    and last: "\<forall>x \<in> set post. \<forall>t. asg_targetId x = Some t \<longrightarrow> take 6 t \<noteq> take 6 t2"
  shows "\<exists>st. main_assignments w a name (pre @ x1 # mid @ x2 # post) st0 = Inr st
           \<and> map_of (assignments st) (name @ ''_user_'' @ take 6 t1)
               = Some \<lparr>access_package_key = name, target_id = t2\<rparr>
           \<and> (\<forall>k \<in> fst ` set (assignments st).
                 k \<in> fst ` set (assignments st0) \<or>
                 (\<exists>x \<in> set (pre @ x1 # mid @ x2 # post). \<exists>t.
                    asg_targetId x = Some t \<and> k = name @ ''_user_'' @ take 6 t))"
proof -
  let ?xs = "pre @ x1 # mid @ x2 # post"
  let ?k = "name @ ''_user_'' @ take 6 t2"
  let ?e2 = "\<lparr>access_package_key = name, target_id = t2\<rparr>"
  let ?upd = "\<lambda>kv :: string \<times> assignment. AList.update (fst kv) (snd kv)"
  from main_assignments_ok [OF ok] obtain st where
    run: "main_assignments w a name ?xs st0 = Inr st"
    by blast
  from main_assignments_rows [OF run] have
    asg: "assignments st = fold ?upd (map snd (assignment_rows w name ?xs)) (assignments st0)"
    by (simp add: fold_update_rows)
  from ok have "assignment_ok w x2" by simp
  from assignment_row_ok [OF this t2, of name] obtain dn where
    row2: "assignment_row w name x2 = [(safe dn, ?k, ?e2)]"
    by blast
  have parts: "map snd (assignment_rows w name ?xs)
      = map snd (assignment_rows w name (pre @ x1 # mid)) @ (?k, ?e2) # map snd (assignment_rows w name post)"
    using row2 by (simp add: assignment_rows_append assignment_rows_Cons)
  have "?k \<notin> fst ` set (map snd (assignment_rows w name post))"
  proof
    assume "?k \<in> fst ` set (map snd (assignment_rows w name post))"
    then obtain r where r: "r \<in> set (assignment_rows w name post)" and k: "fst (snd r) = ?k"
      by auto
    from r obtain x t where "x \<in> set post" "asg_targetId x = Some t"
      "fst (snd r) = name @ ''_user_'' @ take 6 t"
      by (rule assignment_rows_elem) simp
    with k last show False by auto
  qed
  then have "map_of (rev (map snd (assignment_rows w name ?xs))) ?k = Some ?e2"
    by (subst parts) (rule map_of_rev_last)
  then have at_k: "map_of (assignments st) ?k = Some ?e2"
    unfolding asg by (simp only: fold_update_map_of option.case)
  have keys: "k \<in> fst ` set (assignments st0) \<or>
        (\<exists>x \<in> set ?xs. \<exists>t. asg_targetId x = Some t \<and> k = name @ ''_user_'' @ take 6 t)"
    if "k \<in> fst ` set (assignments st)" for k
  proof -
    from that have "k \<in> fst ` set (map snd (assignment_rows w name ?xs)) \<union> fst ` set (assignments st0)"
      unfolding asg by (simp only: fold_update_keys)
    then show ?thesis
    proof
      assume "k \<in> fst ` set (map snd (assignment_rows w name ?xs))"
      then obtain r where r: "r \<in> set (assignment_rows w name ?xs)" and k: "fst (snd r) = k"
        by auto
      from r obtain x t where "x \<in> set ?xs" "asg_targetId x = Some t"
        "fst (snd r) = name @ ''_user_'' @ take 6 t"
        by (rule assignment_rows_elem) simp
      with k show ?thesis by auto
    next
      assume "k \<in> fst ` set (assignments st0)"
      then show ?thesis by simp
    qed
  qed
  from run at_k keys same show ?thesis
    by (simp only: ) blast
qed

theorem later_assignment_overwrites_earlier_witness:
  "list_all (assignment_ok (demo_world []))
     ([] @ \<lparr>asg_id = Some ''a1'', asg_targetId = Some ''abcdef1''\<rparr> # [] @
      \<lparr>asg_id = Some ''a2'', asg_targetId = Some ''abcdef2''\<rparr> # [\<lparr>asg_id = Some ''a3'', asg_targetId = Some ''zzz''\<rparr>])
   \<and> take 6 ''abcdef1'' = take 6 ''abcdef2''
   \<and> ''abcdef1'' \<noteq> ''abcdef2''
   \<and> (\<exists>st. main_assignments (demo_world []) (demo_args False False False) ''pkg'' demo_assignments acc_init = Inr st
        \<and> map_of (assignments st) ''pkg_user_abcdef'' = Some \<lparr>access_package_key = ''pkg'', target_id = ''abcdef2''\<rparr>)"
proof -
  let ?x1 = "\<lparr>asg_id = Some ''a1'', asg_targetId = Some ''abcdef1''\<rparr>"
  let ?x2 = "\<lparr>asg_id = Some ''a2'', asg_targetId = Some ''abcdef2''\<rparr>"
  let ?x3 = "\<lparr>asg_id = Some ''a3'', asg_targetId = Some ''zzz''\<rparr>"
  have ok: "list_all (assignment_ok (demo_world [])) ([] @ ?x1 # [] @ ?x2 # [?x3])"
    by code_simp
  have t1: "asg_targetId ?x1 = Some ''abcdef1''" by simp
  have t2: "asg_targetId ?x2 = Some ''abcdef2''" by simp
  have same: "take 6 ''abcdef1'' = take 6 ''abcdef2''" by simp
  have last: "\<forall>x \<in> set [?x3]. \<forall>t. asg_targetId x = Some t \<longrightarrow> take 6 t \<noteq> take 6 ''abcdef2''"
    by simp
  from later_assignment_overwrites_earlier [OF ok t1 t2 same last,
      of "demo_args False False False" "''pkg''" acc_init] ok same
  show ?thesis
    by (auto simp: demo_assignments_def)
qed

section \<open>Grouped output\<close>




section \<open>Scaffold files\<close>

text \<open>
  Claim C6. A file \<open>main.tf\<close> or \<open>variables.tf\<close> that exists in the output directory
  before a run has the same contents after it, whatever the options and however the run
  ends; so a second run over the files the first one left keeps them too. The scaffold is
  written only where no file of the name exists.
\<close>

theorem scaffold_files_kept:
  assumes "main w a fs = Some out"
    and "f = ''main.tf'' \<or> f = ''variables.tf''"
    and "fs f = Some c"
  shows "files out f = Some c
         \<and> (\<forall>out2. main w a (files out) = Some out2 \<longrightarrow> files out2 f = Some c)"
proof
  show first: "files out f = Some c"
    by (rule main_keeps_scaffold [OF assms])
  show "\<forall>out2. main w a (files out) = Some out2 \<longrightarrow> files out2 f = Some c"
  proof (intro allI impI)
    fix out2
    assume "main w a (files out) = Some out2"
    from main_keeps_scaffold [OF this assms(2) first] show "files out2 f = Some c" .
  qed
qed


theorem scaffold_files_kept_witness:
  "main (demo_world []) (demo_args False True False) [''main.tf'' \<mapsto> ''user text'']
     = Some (main_emit (demo_world []) (demo_args False True False) acc_init
         (print Fetching_access_packages
            \<lparr>files = [''main.tf'' \<mapsto> ''user text''], stdout = [], raised = None\<rparr>))
   \<and> [''main.tf'' \<mapsto> ''user text''] ''main.tf'' = Some ''user text''
   \<and> files (main_emit (demo_world []) (demo_args False True False) acc_init
         (print Fetching_access_packages
            \<lparr>files = [''main.tf'' \<mapsto> ''user text''], stdout = [], raised = None\<rparr>)) ''main.tf''
       = Some ''user text''"
proof -
  let ?w = "demo_world []"
  let ?a = "demo_args False True False"
  let ?fs = "[''main.tf'' \<mapsto> ''user text'']"
  let ?out = "main_emit ?w ?a acc_init
         (print Fetching_access_packages \<lparr>files = ?fs, stdout = [], raised = None\<rparr>)"
  have m: "main ?w ?a ?fs = Some ?out"
    by (rule main_returns [OF demo_token demo_collect_empty])
  have f: "?fs ''main.tf'' = Some ''user text''"
    by simp
  from scaffold_files_kept [OF m _ f] m f show ?thesis
    by simp
qed

section \<open>The import runner\<close>

text \<open>
  Claim C8. With the import option set, in a run that reaches the import: when a backend
  configuration is detected and \<open>terraform init\<close> exits with a status other than 0, the
  run ends with \<open>CalledProcessError\<close> and prints nothing more; otherwise the run raises
  nothing and ends with the line "terraform import executed". The exit status of the import
  script changes nothing of the outcome: not the exception, not the lines printed, not the
  files.
\<close>

theorem import_runner_errors:
  assumes tok: "acquire_token_for_client w (client_id a) (client_secret a) (tenant_id a) = Some tok"
    and col: "main_collect w a = Some (Inr st)"
    and ri: "run_imports a"
    and before: "before = main_files w a st (print Fetching_access_packages \<lparr>files = fs, stdout = [], raised = None\<rparr>)"
    and init: "init = subprocess_run w [''terraform'', ''init'']"
  shows "\<exists>out. main w a fs = Some out
           \<and> (if backend_detected before \<and> init \<noteq> 0
               then raised out = Some (CalledProcessError init)
                    \<and> stdout out = stdout before @ [Detected_backend]
               else raised out = None
                    \<and> stdout out = stdout before @ (if backend_detected before then [Detected_backend] else [])
                                      @ [Import_executed])
           \<and> (\<forall>status.
                 main (w\<lparr>subprocess_run := (subprocess_run w)([''bash'', ''terraform_import.sh''] := status)\<rparr>) a fs
                   = Some out)"
proof -
  have m: "main w a fs = Some (main_run_imports w a before)"
    using main_returns [OF tok col] by (simp add: main_emit_def before)
  have r: "raised before = None"
    by (simp add: before raised_main_files print_def)
  have "if backend_detected before \<and> init \<noteq> 0
        then raised (main_run_imports w a before) = Some (CalledProcessError init)
             \<and> stdout (main_run_imports w a before) = stdout before @ [Detected_backend]
        else raised (main_run_imports w a before) = None
             \<and> stdout (main_run_imports w a before)
                 = stdout before @ (if backend_detected before then [Detected_backend] else []) @ [Import_executed]"
    using ri r by (auto simp: main_run_imports_def Let_def print_def init)
  with m show ?thesis
    by (simp add: main_script_status)
qed

theorem import_runner_errors_witness:
  "run_imports (demo_args False False True)
   \<and> subprocess_run (demo_world []) [''bash'', ''terraform_import.sh''] = 1
   \<and> (\<exists>out. main (demo_world []) (demo_args False False True) [''backend.tf'' \<mapsto> ''terraform {}''] = Some out
         \<and> raised out = None
         \<and> stdout out = [Fetching_access_packages, Tfvars_written, Import_script_written,
                          Detected_backend, Import_executed])
   \<and> subprocess_run ((demo_world [])\<lparr>subprocess_run := \<lambda>cmd. 2\<rparr>) [''terraform'', ''init''] = 2
   \<and> (\<exists>out. main ((demo_world [])\<lparr>subprocess_run := \<lambda>cmd. 2\<rparr>) (demo_args False False True)
                [''backend.tf'' \<mapsto> ''terraform {}''] = Some out
         \<and> raised out = Some (CalledProcessError 2)
         \<and> stdout out = [Fetching_access_packages, Tfvars_written, Import_script_written,
                          Detected_backend])"
proof -
  let ?a = "demo_args False False True"
  let ?fs = "[''backend.tf'' \<mapsto> ''terraform {}'']"
  let ?w2 = "(demo_world [])\<lparr>subprocess_run := \<lambda>cmd. 2\<rparr>"
  let ?b = "\<lambda>w. main_files w ?a acc_init (print Fetching_access_packages \<lparr>files = ?fs, stdout = [], raised = None\<rparr>)"
  have ri: "run_imports ?a"
    by (simp add: demo_args_def)
  have tok2: "acquire_token_for_client ?w2 (client_id ?a) (client_secret ?a) (tenant_id ?a) = Some ''token''"
    by (simp add: demo_world_def)
  have col2: "main_collect ?w2 ?a = Some (Inr acc_init)"
    by (simp add: main_collect_subprocess demo_collect_empty)
  have b: "backend_detected (?b w)" "stdout (?b w) = [Fetching_access_packages, Tfvars_written, Import_script_written]" for w
    by (simp_all add: backend_detected_def path_exists_def main_files_def main_scaffold_def
        main_write_import_script_def main_write_groups_def main_write_tfvars_def print_def
        write_file_def demo_args_def Let_def)
  have i1: "subprocess_run (demo_world []) [''terraform'', ''init''] = 0"
    and s1: "subprocess_run (demo_world []) [''bash'', ''terraform_import.sh''] = 1"
    and i2: "subprocess_run ?w2 [''terraform'', ''init''] = 2"
    by (simp_all add: demo_world_def)
  from import_runner_errors [where w = "demo_world []" and a = ?a and fs = ?fs,
      OF demo_token demo_collect_empty ri refl refl] b i1
  have one: "\<exists>out. main (demo_world []) ?a ?fs = Some out \<and> raised out = None
         \<and> stdout out = [Fetching_access_packages, Tfvars_written, Import_script_written,
                          Detected_backend, Import_executed]"
    by auto
  from import_runner_errors [where w = ?w2 and a = ?a and fs = ?fs, OF tok2 col2 ri refl refl] b i2
  have two: "\<exists>out. main ?w2 ?a ?fs = Some out \<and> raised out = Some (CalledProcessError 2)
         \<and> stdout out = [Fetching_access_packages, Tfvars_written, Import_script_written,
                          Detected_backend]"
    by auto
  from ri s1 i2 one two show ?thesis
    by simp
qed

section \<open>The example of the specification\<close>

lemma main_assignments_cmds:
  "main_assignments w a name xs st = Inr st' \<Longrightarrow> \<exists>cs. import_cmds st' = import_cmds st @ cs"
proof (induction xs arbitrary: st)
  case Nil
  then show ?case by simp
next
  case (Cons x xs)
  from Cons.prems obtain st3 c where
    r: "main_assignments w a name xs st3 = Inr st'" and c: "import_cmds st3 = import_cmds st @ [c]"
    by (auto split: option.splits sum.splits if_splits simp: Let_def)
  from Cons.IH [OF r] c show ?case by auto
qed

text \<open>
  Claim C7. For a catalog with one package whose display name is "Finance Access" and one
  assignment policy, the run gives the package key \<open>finance_access\<close>, the policy key
  \<open>finance_access_\<close> followed by the sanitised policy name, and, as the first import
  command, \<open>terraform import azuread_access_package.finance_access\<close> followed by the
  package id; the commands are the lines of \<open>terraform_import.sh\<close>.
\<close>

theorem finance_access_example:
  assumes tok: "acquire_token_for_client w (client_id a) (client_secret a) (tenant_id a) = Some tok"
    and pk: "get_all (get_packages w) (packages_url (catalog_id_opt a)) = Some (Inr [pkg])"
    and dn: "pkg_displayName pkg = Some ''Finance Access''"
    and pid: "pkg_id pkg = Some pid"
    and cat: "pkg_catalogId pkg = Some cid"
    and pols: "get_all (get_policies w) (policies_url pid) = Some (Inr [pol])"
    and pn: "pol_displayName pol = Some pn"
    and qid: "pol_id pol = Some qid"
    and asg: "get_all (get_assignments w) (assignments_url pid) = Some (Inr xs)"
    and ok: "list_all (assignment_ok w) xs"
  shows "\<exists>st out. main_collect w a = Some (Inr st) \<and> main w a fs = Some out
           \<and> map fst (access_packages st) = [''finance_access'']
           \<and> assignment_policies st = [(''finance_access_'' @ safe pn, policy_entry ''finance_access'' pol)]
           \<and> take 2 (import_cmds st) =
               [''terraform import azuread_access_package.finance_access '' @ pid,
                ''terraform import azuread_access_package_assignment_policy.finance_access_'' @ safe pn
                  @ '' '' @ qid]
           \<and> files out ''terraform_import.sh''
               = Some (''#!/bin/bash\<newline>\<newline>'' @ concat (map (\<lambda>cmd. cmd @ ''\<newline>'') (import_cmds st)))"
proof -
  let ?name = "''finance_access''"
  let ?c1 = "''terraform import azuread_access_package.finance_access '' @ pid"
  let ?c2 = "''terraform import azuread_access_package_assignment_policy.finance_access_'' @ safe pn @ '' '' @ qid"
  let ?st3 = "acc_init\<lparr>access_packages :=
                  [(?name, \<lparr>catalog_id = cid, description = (case pkg_description pkg of None \<Rightarrow> [] | Some d \<Rightarrow> d)\<rparr>)],
                import_cmds := [?c1, ?c2],
                assignment_policies := [(''finance_access_'' @ safe pn, policy_entry ?name pol)]\<rparr>"
  have s: "safe ''Finance Access'' = ?name"
    by code_simp
  from main_assignments_ok [OF ok] obtain st where
    x: "main_assignments w a ?name xs ?st3 = Inr st"
    by blast
  have run: "main_packages w a [pkg] acc_init = Some (Inr st)"
    using dn pid cat pols pn qid asg x
    by (simp add: Let_def s acc_init_def)
  with pk have col: "main_collect w a = Some (Inr st)"
    by (simp add: main_collect_def)
  from main_assignments_frame [OF x] have
    fr: "access_packages st = access_packages ?st3" "assignment_policies st = assignment_policies ?st3"
    by simp_all
  from main_assignments_cmds [OF x] obtain cs where cs: "import_cmds st = [?c1, ?c2] @ cs"
    by (auto simp: acc_init_def)
  let ?out1 = "print Fetching_access_packages \<lparr>files = fs, stdout = [], raised = None\<rparr>"
  have m: "main w a fs = Some (main_emit w a st ?out1)"
    by (rule main_returns [OF tok col])
  have f: "files (main_emit w a st ?out1) ''terraform_import.sh''
        = Some (''#!/bin/bash\<newline>\<newline>'' @ concat (map (\<lambda>cmd. cmd @ ''\<newline>'') (import_cmds st)))"
    by (simp add: main_emit_def files_main_run_imports main_files_def files_main_scaffold_other
        main_write_import_script_def files_print files_write_file)
  from col m fr cs f show ?thesis
    by (simp add: acc_init_def)
qed

theorem finance_access_example_witness:
  "get_all (get_packages (demo_world [demo_pkg1])) (packages_url ''cat'') = Some (Inr [demo_pkg1])
   \<and> pkg_displayName demo_pkg1 = Some ''Finance Access''
   \<and> pkg_id demo_pkg1 = Some ''p1''
   \<and> get_all (get_policies (demo_world [demo_pkg1])) (policies_url ''p1'') = Some (Inr [demo_policy])
   \<and> pol_displayName demo_policy = Some ''Default Policy''
   \<and> pol_id demo_policy = Some ''q1''
   \<and> (\<exists>st out. main_collect (demo_world [demo_pkg1]) (demo_args False False False) = Some (Inr st)
         \<and> main (demo_world [demo_pkg1]) (demo_args False False False) Map.empty = Some out
         \<and> map fst (access_packages st) = [''finance_access'']
         \<and> map fst (assignment_policies st) = [''finance_access_default_policy'']
         \<and> take 2 (import_cmds st) =
             [''terraform import azuread_access_package.finance_access p1'',
              ''terraform import azuread_access_package_assignment_policy.finance_access_default_policy q1''])"
proof -
  let ?w = "demo_world [demo_pkg1]"
  let ?a = "demo_args False False False"
  have pk: "get_all (get_packages ?w) (packages_url (catalog_id_opt ?a)) = Some (Inr [demo_pkg1])"
    by (rule demo_get_packages)
  have dn: "pkg_displayName demo_pkg1 = Some ''Finance Access''"
    and pid: "pkg_id demo_pkg1 = Some ''p1''"
    and cat: "pkg_catalogId demo_pkg1 = Some ''cat''"
    by (simp_all add: demo_pkg1_def)
  have pn: "pol_displayName demo_policy = Some ''Default Policy''"
    and qid: "pol_id demo_policy = Some ''q1''"
    by (simp_all add: demo_policy_def)
  have s: "safe ''Default Policy'' = ''default_policy''"
    by code_simp
  have p2: "get_all (get_policies ?w) (policies_url ''p1'') = Some (Inr [demo_policy])"
    by (rule demo_get_policies)
  from finance_access_example [OF demo_token pk dn pid cat demo_get_policies pn qid
      demo_get_assignments demo_assignments_ok, of Map.empty]
  have "\<exists>st out. main_collect ?w ?a = Some (Inr st) \<and> main ?w ?a Map.empty = Some out
         \<and> map fst (access_packages st) = [''finance_access'']
         \<and> map fst (assignment_policies st) = [''finance_access_default_policy'']
         \<and> take 2 (import_cmds st) =
             [''terraform import azuread_access_package.finance_access p1'',
              ''terraform import azuread_access_package_assignment_policy.finance_access_default_policy q1'']"
    by (elim exE conjE, intro exI conjI) (simp_all add: s)
  with pk dn pid pn qid p2 show ?thesis
    by (simp add: demo_args_def)
qed

end
